theory Spec2Isabelle
  imports Main "HOL-Library.Sublist"
begin

section \<open>Python values used by the review script\<close>

text \<open>
  A Python \<open>str\<close> is a sequence of Unicode code points, so it is modelled as a list of
  natural numbers; slicing and \<open>len\<close> count code points, as in the source.
  \<open>lit\<close> turns an ASCII literal of the source into that representation; the emoji of
  the templates are written as their code points.
\<close>

type_synonym str = "nat list"

definition lit :: "string \<Rightarrow> str" where
  "lit s = map of_char s"

text \<open>
  Exceptions. \<open>Raised m\<close> is an exception thrown by the environment or a library
  (subprocess, \<open>open\<close>, \<open>requests\<close>, the JSON decoder) whose \<open>str(e)\<close> is \<open>m\<close>; the
  others are thrown by the interpreter while the script's own expressions are evaluated.
\<close>

datatype py_exc =
    Raised str
  | KeyError str
  | IndexError
  | TypeError
  | AttributeError
  | FileNotFoundError str

text \<open>
  Two tables of the interpreter are parameters of the model: the Unicode upper-case
  mapping of one code point (\<open>str.upper\<close> maps every character on its own, and one
  character may become several), and the message text of the interpreter's own exceptions.
\<close>

record interp =
  upper_map :: "nat \<Rightarrow> str"
  exc_text :: "py_exc \<Rightarrow> str"

definition upper :: "interp \<Rightarrow> str \<Rightarrow> str" where
  "upper I s = concat (map (upper_map I) s)"

definition str_exc :: "interp \<Rightarrow> py_exc \<Rightarrow> str" where
  "str_exc I e = (case e of Raised m \<Rightarrow> m | _ \<Rightarrow> exc_text I e)"

text \<open>The ASCII part of the upper-case table, used to run the model on ASCII inputs.\<close>

definition ascii_interp :: interp where
  "ascii_interp =
     \<lparr> upper_map = (\<lambda>c. if 97 \<le> c \<and> c \<le> 122 then [c - 32] else [c]),
       exc_text = (\<lambda>e. []) \<rparr>"

text \<open>\<open>str.isspace\<close> of one character: the white-space code points of CPython.\<close>

definition isspace :: "nat \<Rightarrow> bool" where
  "isspace c =
     ((9 \<le> c \<and> c \<le> 13) \<or> (28 \<le> c \<and> c \<le> 32) \<or> c = 133 \<or> c = 160 \<or> c = 5760
      \<or> (8192 \<le> c \<and> c \<le> 8202) \<or> c = 8232 \<or> c = 8233 \<or> c = 8239 \<or> c = 8287
      \<or> c = 12288)"

text \<open>\<open>s.strip()\<close>: leading and trailing white space removed.\<close>

definition strip :: "str \<Rightarrow> str" where
  "strip s = rev (dropWhile isspace (rev (dropWhile isspace s)))"

text \<open>\<open>s.split('\n')\<close>: the pieces between line feeds; never the empty list.\<close>

fun split_nl :: "str \<Rightarrow> str list" where
  "split_nl [] = [[]]"
| "split_nl (c # cs) =
     (if c = 10 then [] # split_nl cs
      else (case split_nl cs of l # ls \<Rightarrow> (c # l) # ls | [] \<Rightarrow> [[c]]))"

text \<open>\<open>s.endswith(e)\<close>, and \<open>s.endswith(tuple)\<close>.\<close>

definition endswith :: "str \<Rightarrow> str \<Rightarrow> bool" where
  "endswith s e = (length e \<le> length s \<and> drop (length s - length e) s = e)"

definition endswith_any :: "str \<Rightarrow> str list \<Rightarrow> bool" where
  "endswith_any s es = list_ex (endswith s) es"

text \<open>\<open>needle in hay\<close> on two strings: a search from the left.\<close>

fun py_in :: "str \<Rightarrow> str \<Rightarrow> bool" where
  "py_in needle [] = (needle = [])"
| "py_in needle (c # cs) = (take (length needle) (c # cs) = needle \<or> py_in needle cs)"

text \<open>\<open>str(n)\<close> of an integer, as the f-strings format it.\<close>

fun str_nat :: "nat \<Rightarrow> str" where
  "str_nat n = (if n < 10 then [48 + n] else str_nat (n div 10) @ [48 + n mod 10])"

declare str_nat.simps [simp del]

definition str_int :: "int \<Rightarrow> str" where
  "str_int i = (if i < 0 then 45 # str_nat (nat (- i)) else str_nat (nat i))"

subsection \<open>Decoded JSON\<close>

text \<open>
  The value \<open>response.json()\<close> returns. An object is the Python dict, its keys in
  insertion order and distinct. Only the control flow of the script depends on numbers,
  so a number carries an integer.
\<close>

datatype json =
    JNull
  | JBool bool
  | JNum int
  | JStr str
  | JArr "json list"
  | JObj "(str \<times> json) list"

definition and_then :: "py_exc + 'a \<Rightarrow> ('a \<Rightarrow> py_exc + 'b) \<Rightarrow> py_exc + 'b" where
  "and_then m f = (case m of Inl e \<Rightarrow> Inl e | Inr v \<Rightarrow> f v)"

text \<open>\<open>key in x\<close> for a string key.\<close>

fun py_contains :: "str \<Rightarrow> json \<Rightarrow> py_exc + bool" where
  "py_contains k (JObj kvs) = Inr (k \<in> set (map fst kvs))"
| "py_contains k (JArr xs) = Inr (JStr k \<in> set xs)"
| "py_contains k (JStr s) = Inr (py_in k s)"
| "py_contains k _ = Inl TypeError"

text \<open>\<open>x[key]\<close> for a string key.\<close>

fun py_getitem :: "json \<Rightarrow> str \<Rightarrow> py_exc + json" where
  "py_getitem (JObj kvs) k = (case map_of kvs k of Some v \<Rightarrow> Inr v | None \<Rightarrow> Inl (KeyError k))"
| "py_getitem _ k = Inl TypeError"

text \<open>\<open>x[0]\<close>. The keys of a decoded object are strings, so \<open>0\<close> is never among them.\<close>

fun py_first :: "json \<Rightarrow> py_exc + json" where
  "py_first (JArr (x # xs)) = Inr x"
| "py_first (JArr []) = Inl IndexError"
| "py_first (JStr (c # cs)) = Inr (JStr [c])"
| "py_first (JStr []) = Inl IndexError"
| "py_first (JObj kvs) = Inl (KeyError (lit ''0''))"
| "py_first _ = Inl TypeError"

text \<open>\<open>len(x)\<close>.\<close>

fun py_len :: "json \<Rightarrow> py_exc + nat" where
  "py_len (JObj kvs) = Inr (length kvs)"
| "py_len (JArr xs) = Inr (length xs)"
| "py_len (JStr s) = Inr (length s)"
| "py_len _ = Inl TypeError"

section \<open>The environment of one run\<close>

datatype git_outcome =
    GitRaised str
  | GitCompleted int str str

datatype http_outcome =
    PostRaised str
  | Response int str "str + json"

text \<open>
  \<open>GitCompleted returncode stdout stderr\<close> is the completed \<open>git diff\<close> process.
  \<open>Response status_code body decoded\<close> is an HTTP response, \<open>decoded\<close> being what
  \<open>response.json()\<close> does on it: the decoded value, or the message of the exception.
  The endpoint is asked with the number of earlier requests of the run, the URL and the
  prompt (the rest of the request is fixed), so it may answer the same prompt differently.
  \<open>out_dir_exists\<close> says whether \<open>.github/scripts\<close> is a directory of the working
  directory. Opening a file for writing raises when its directory is absent; \<open>mkdir\<close>
  with \<open>parents\<close> and \<open>exist_ok\<close> and a write into an existing directory succeed,
  and so does console output.
\<close>

record world =
  getenv_api_key :: "str option"
  git_diff :: git_outcome
  path_exists :: "str \<Rightarrow> bool"
  open_read :: "str \<Rightarrow> str + str"
  http_post :: "nat \<Rightarrow> str \<Rightarrow> str \<Rightarrow> http_outcome"
  out_dir_exists :: bool

datatype event =
    Print str
  | GitDiff
  | PathExists str
  | ReadFile str
  | HttpPost str str
  | MakeDirs str
  | OpenFailed str
  | WriteFile str str

section \<open>Change discovery\<close>

definition code_extensions :: "str list" where
  "code_extensions =
     map lit [''.ts'', ''.tsx'', ''.js'', ''.jsx'', ''.py'', ''.java'', ''.cpp'', ''.c'', ''.h'',
              ''.hpp'']"

text \<open>The loop that appends the code files to \<open>code_files\<close>.\<close>

fun code_files_loop :: "str list \<Rightarrow> str list \<Rightarrow> str list" where
  "code_files_loop [] code_files = code_files"
| "code_files_loop (f # files) code_files =
     code_files_loop files
       (if endswith_any f code_extensions then code_files @ [f] else code_files)"

definition diff_files :: "str \<Rightarrow> str list" where
  "diff_files out = map strip (filter (\<lambda>f. strip f \<noteq> []) (split_nl out))"

definition get_changed_files :: "git_outcome \<Rightarrow> str list \<times> event list" where
  "get_changed_files g =
     (case g of
        GitRaised m \<Rightarrow> ([], [GitDiff, Print (lit ''Error in get_changed_files: '' @ m)])
      | GitCompleted returncode out err \<Rightarrow>
          if returncode = 0 then (code_files_loop (diff_files out) [], [GitDiff])
          else ([], [GitDiff, Print (lit ''Error getting changed files: '' @ err)]))"

section \<open>Content loader\<close>

definition read_file_content :: "world \<Rightarrow> str \<Rightarrow> str \<times> event list" where
  "read_file_content W file_path =
     (case open_read W file_path of
        Inr content \<Rightarrow> (content, [ReadFile file_path])
      | Inl m \<Rightarrow>
          ([], [ReadFile file_path,
                Print (lit ''Error reading '' @ file_path @ lit '': '' @ m)]))"

section \<open>Review requester\<close>

definition GEMINI_API_URL :: str where
  "GEMINI_API_URL =
     lit ''https://generativelanguage.googleapis.com/v1beta/models/gemini-pro:generateContent''"

definition no_response_text :: str where
  "no_response_text = lit ''No response generated from Gemini API''"

text \<open>
  The body of the \<open>status_code == 200\<close> branch: the test on \<open>candidates\<close> with its
  short-circuit \<open>and\<close>, then the chain of subscripts. Every exception is caught by the
  caller.
\<close>

definition candidate_text :: "json \<Rightarrow> py_exc + json" where
  "candidate_text result =
     and_then (py_contains (lit ''candidates'') result) (\<lambda>present.
       and_then
         (if present
          then and_then (py_getitem result (lit ''candidates'')) (\<lambda>cs.
                 and_then (py_len cs) (\<lambda>n. Inr (n > 0)))
          else Inr False)
         (\<lambda>nonempty.
            if nonempty
            then and_then (py_getitem result (lit ''candidates'')) (\<lambda>cs.
                   and_then (py_first cs) (\<lambda>c.
                     and_then (py_getitem c (lit ''content'')) (\<lambda>content.
                       and_then (py_getitem content (lit ''parts'')) (\<lambda>parts.
                         and_then (py_first parts) (\<lambda>part.
                           py_getitem part (lit ''text''))))))
            else Inr (JStr no_response_text)))"

definition call_failed :: "str \<Rightarrow> json" where
  "call_failed m = JStr (lit ''Error calling Gemini API: '' @ m)"

definition call_gemini_api ::
    "interp \<Rightarrow> (str \<Rightarrow> str \<Rightarrow> http_outcome) \<Rightarrow> str \<Rightarrow> str \<Rightarrow> json \<times> event list" where
  "call_gemini_api I post prompt api_key =
     (let url = GEMINI_API_URL @ lit ''?key='' @ api_key in
      (case post url prompt of
         PostRaised m \<Rightarrow> call_failed m
       | Response status_code body decoded \<Rightarrow>
           if status_code = 200
           then (case decoded of
                   Inl m \<Rightarrow> call_failed m
                 | Inr result \<Rightarrow>
                     (case candidate_text result of
                        Inl e \<Rightarrow> call_failed (str_exc I e)
                      | Inr v \<Rightarrow> v))
           else JStr (lit ''API Error: '' @ str_int status_code @ lit '' - '' @ body),
       [HttpPost url prompt]))"

definition prompt_head :: str where
  "prompt_head = lit ''\<newline>You are an expert code reviewer. Analyze the following code file and provide constructive feedback.\<newline>\<newline>File: ''"

definition prompt_mid :: str where
  "prompt_mid = lit ''\<newline>Content:\<newline>''"

definition prompt_tail :: str where
  "prompt_tail = lit ''... (truncated if longer)\<newline>\<newline>Please provide:\<newline>1. **Overall Assessment**: Brief summary of code quality\<newline>2. **Strengths**: What the code does well\<newline>3. **Issues**: Specific problems or improvements needed\<newline>4. **Security Concerns**: Any security vulnerabilities\<newline>5. **Best Practices**: Suggestions for following coding best practices\<newline>6. **Severity**: Rate as LOW/MEDIUM/HIGH/CRITICAL\<newline>\<newline>Format your response in clear sections with emojis for readability.\<newline>Be specific and actionable in your feedback.\<newline>''"

definition review_prompt :: "str \<Rightarrow> str \<Rightarrow> str" where
  "review_prompt file_path content =
     prompt_head @ file_path @ prompt_mid @ take 4000 content @ prompt_tail"

record ReviewResult =
  file_name :: str
  analysis :: json
  severity :: str

definition analyze_file_with_gemini ::
    "interp \<Rightarrow> (str \<Rightarrow> str \<Rightarrow> http_outcome) \<Rightarrow> str \<Rightarrow> str \<Rightarrow> str
       \<Rightarrow> ReviewResult \<times> event list" where
  "analyze_file_with_gemini I post file_path content api_key =
     (let (answer, ev) = call_gemini_api I post (review_prompt file_path content) api_key in
      (\<lparr> file_name = file_path, analysis = answer, severity = lit ''MEDIUM'' \<rparr>, ev))"

section \<open>Aggregator\<close>

text \<open>\<open>keyword in x.upper()\<close>; only a string has the method.\<close>

definition mentions :: "interp \<Rightarrow> str \<Rightarrow> json \<Rightarrow> py_exc + bool" where
  "mentions I keyword x =
     (case x of JStr s \<Rightarrow> Inr (py_in keyword (upper I s)) | _ \<Rightarrow> Inl AttributeError)"

definition is_high_priority :: "interp \<Rightarrow> json \<Rightarrow> py_exc + bool" where
  "is_high_priority I x =
     and_then (mentions I (lit ''HIGH'') x) (\<lambda>high.
       if high then Inr True else mentions I (lit ''CRITICAL'') x)"

text \<open>\<open>sum(1 for a in analyses if ...)\<close>.\<close>

fun sum_high :: "interp \<Rightarrow> ReviewResult list \<Rightarrow> nat \<Rightarrow> py_exc + nat" where
  "sum_high I [] acc = Inr acc"
| "sum_high I (a # as) acc =
     and_then (is_high_priority I (analysis a)) (\<lambda>high.
       sum_high I as (if high then acc + 1 else acc))"

definition red_icon :: str where "red_icon = [0x1F534]"
definition yellow_icon :: str where "yellow_icon = [0x1F7E1]"
definition green_icon :: str where "green_icon = [0x1F7E2]"

definition severity_icon :: "interp \<Rightarrow> json \<Rightarrow> py_exc + str" where
  "severity_icon I x =
     and_then (is_high_priority I x) (\<lambda>high.
       if high then Inr red_icon
       else and_then (mentions I (lit ''MEDIUM'') x) (\<lambda>medium.
              Inr (if medium then yellow_icon else green_icon)))"

definition py_split_nl :: "json \<Rightarrow> py_exc + str list" where
  "py_split_nl x = (case x of JStr s \<Rightarrow> Inr (split_nl s) | _ \<Rightarrow> Inl AttributeError)"

text \<open>The inner loop over \<open>lines\<close>, appending one bullet for each line that is not blank.\<close>

fun bullet_loop :: "str list \<Rightarrow> str \<Rightarrow> str" where
  "bullet_loop [] summary = summary"
| "bullet_loop (line # lines) summary =
     bullet_loop lines
       (if strip line \<noteq> [] then summary @ lit ''- '' @ strip line @ lit ''\<newline>''
        else summary)"

text \<open>One pass of the loop over \<open>analyses\<close>.\<close>

definition summary_step :: "interp \<Rightarrow> ReviewResult \<Rightarrow> str \<Rightarrow> py_exc + str" where
  "summary_step I a summary =
     and_then (severity_icon I (analysis a)) (\<lambda>icon.
       and_then (py_split_nl (analysis a)) (\<lambda>ls.
         Inr (bullet_loop (take 3 ls)
                (summary @ lit ''**'' @ icon @ lit '' '' @ file_name a @ lit ''**\<newline>'')
              @ lit ''\<newline>'')))"

fun summary_loop :: "interp \<Rightarrow> ReviewResult list \<Rightarrow> str \<Rightarrow> py_exc + str" where
  "summary_loop I [] summary = Inr summary"
| "summary_loop I (a # as) summary =
     and_then (summary_step I a summary) (summary_loop I as)"

definition summary_header :: "nat \<Rightarrow> nat \<Rightarrow> str" where
  "summary_header total_files high_priority =
     lit ''## '' @ [0x1F4CB] @ lit '' Code Review Summary\<newline>\<newline>**Files Analyzed**: ''
     @ str_nat total_files @ lit ''\<newline>**High Priority Issues**: '' @ str_nat high_priority
     @ lit ''\<newline>\<newline>### '' @ [0x1F50D] @ lit '' Analysis Overview\<newline>\<newline>''"

definition generate_overall_summary :: "interp \<Rightarrow> ReviewResult list \<Rightarrow> py_exc + str" where
  "generate_overall_summary I analyses =
     and_then (sum_high I analyses 0) (\<lambda>high_priority.
       summary_loop I analyses (summary_header (length analyses) high_priority))"

section \<open>Writer and main program\<close>

definition out_dir :: str where
  "out_dir = lit ''.github/scripts''"

definition out_path :: str where
  "out_path = lit ''.github/scripts/review-output.md''"

definition no_changes_document :: str where
  "no_changes_document =
     lit ''## '' @ [0x1F916] @ lit '' AI Code Review Results\<newline>\<newline>'' @ [0x2139, 0xFE0F]
     @ lit '' **No code files were changed in this pull request.**\<newline>\<newline>The AI code review found no files to analyze.''"

definition section_heading :: "str \<Rightarrow> str" where
  "section_heading name = lit ''## '' @ [0x1F4C4] @ lit '' '' @ name @ lit ''\<newline>\<newline>''"

definition section_end :: str where
  "section_end = lit ''\<newline>\<newline>---\<newline>\<newline>''"

definition report_footer :: str where
  "report_footer =
     lit ''*This review was generated by Google Gemini AI using advanced code analysis.*''"

text \<open>
  The loop that appends one section for each analysis. \<open>+=\<close> of a value that is not a
  string to a string raises.
\<close>

fun detail_loop :: "ReviewResult list \<Rightarrow> str \<Rightarrow> py_exc + str" where
  "detail_loop [] review_output = Inr review_output"
| "detail_loop (a # as) review_output =
     (case analysis a of
        JStr t \<Rightarrow>
          detail_loop as (review_output @ section_heading (file_name a) @ t @ section_end)
      | _ \<Rightarrow> Inl TypeError)"

definition review_document :: "interp \<Rightarrow> ReviewResult list \<Rightarrow> py_exc + str" where
  "review_document I analyses =
     (let review_output =
            lit ''## '' @ [0x1F916] @ lit '' AI Code Review Results (Gemini)\<newline>\<newline>''
            @ lit ''**Analyzed '' @ str_nat (length analyses) @ lit '' files**\<newline>\<newline>''
      in and_then
           (if analyses \<noteq> []
            then and_then (generate_overall_summary I analyses) (\<lambda>summary.
                   detail_loop analyses (review_output @ summary @ lit ''---\<newline>\<newline>''))
            else Inr review_output)
           (\<lambda>review_output. Inr (review_output @ report_footer)))"

text \<open>
  One pass of the loop over \<open>changed_files\<close>; \<open>n\<close> counts the requests made so far.
  The result is the analysis appended to \<open>analyses\<close>, if any.
\<close>

definition review_file ::
    "interp \<Rightarrow> world \<Rightarrow> str \<Rightarrow> nat \<Rightarrow> str \<Rightarrow> ReviewResult option \<times> event list" where
  "review_file I W api_key n file_path =
     (if path_exists W file_path
      then (let seen = [PathExists file_path,
                        Print ([0x1F50D] @ lit '' Analyzing '' @ file_path @ lit ''...'')];
                (content, ev) = read_file_content W file_path
            in if content \<noteq> []
               then (let (a, ev') =
                           analyze_file_with_gemini I (http_post W n) file_path content api_key
                     in (Some a, seen @ ev @ ev'))
               else (None,
                     seen @ ev
                     @ [Print ([0x26A0, 0xFE0F] @ lit '' Could not read content of ''
                               @ file_path)]))
      else (None,
            [PathExists file_path,
             Print ([0x26A0, 0xFE0F] @ lit '' File '' @ file_path @ lit '' not found'')]))"

fun review_files ::
    "interp \<Rightarrow> world \<Rightarrow> str \<Rightarrow> nat \<Rightarrow> str list \<Rightarrow> ReviewResult list \<times> event list" where
  "review_files I W api_key n [] = ([], [])"
| "review_files I W api_key n (f # fs) =
     (case review_file I W api_key n f of
        (None, ev) \<Rightarrow>
          (let (analyses, evs) = review_files I W api_key n fs in (analyses, ev @ evs))
      | (Some a, ev) \<Rightarrow>
          (let (analyses, evs) = review_files I W api_key (Suc n) fs
           in (a # analyses, ev @ evs)))"

datatype exit_status =
    Returned
  | SysExit nat
  | Uncaught py_exc

text \<open>
  What a run leaves behind: how it ended, what it did in order, whether it created the
  output directory, and the content it wrote to the output file, if it wrote it.
\<close>

record outcome =
  status :: exit_status
  trace :: "event list"
  made_dir :: bool
  written :: "str option"

definition main :: "interp \<Rightarrow> world \<Rightarrow> outcome" where
  "main I W =
     (case getenv_api_key W of
        None \<Rightarrow>
          \<lparr> status = SysExit 1,
            trace = [Print ([0x274C] @ lit '' GEMINI_API_KEY environment variable not set'')],
            made_dir = False, written = None \<rparr>
      | Some api_key \<Rightarrow>
          if api_key = []
          then \<lparr> status = SysExit 1,
                 trace = [Print ([0x274C] @ lit '' GEMINI_API_KEY environment variable not set'')],
                 made_dir = False, written = None \<rparr>
          else
            (let (changed_files, ev) = get_changed_files (git_diff W);
                 started =
                   Print ([0x1F916] @ lit '' Starting AI Code Review with Gemini...'') # ev
             in if changed_files = []
                then (let told = started
                            @ [Print ([0x2139, 0xFE0F] @ lit '' No code files changed in this PR'')]
                      in if out_dir_exists W
                         then \<lparr> status = Returned,
                                trace = told @ [WriteFile out_path no_changes_document],
                                made_dir = False, written = Some no_changes_document \<rparr>
                         else \<lparr> status = Uncaught (FileNotFoundError out_path),
                                trace = told @ [OpenFailed out_path],
                                made_dir = False, written = None \<rparr>)
                else (let found = started
                            @ [Print ([0x1F4C1] @ lit '' Found ''
                                      @ str_nat (length changed_files) @ lit '' changed files:'')]
                            @ map (\<lambda>f. Print (lit ''  - '' @ f)) changed_files;
                          (analyses, evs) = review_files I W api_key 0 changed_files
                      in (case review_document I analyses of
                            Inl e \<Rightarrow>
                              \<lparr> status = Uncaught e, trace = found @ evs,
                                made_dir = False, written = None \<rparr>
                          | Inr review_output \<Rightarrow>
                              \<lparr> status = Returned,
                                trace = found @ evs
                                  @ [MakeDirs out_dir, WriteFile out_path review_output,
                                     Print ([0x2705] @ lit '' AI Code Review completed!''),
                                     Print ([0x1F4DD]
                                            @ lit '' Review saved to .github/scripts/review-output.md'')],
                                made_dir = (\<not> out_dir_exists W),
                                written = Some review_output \<rparr>))))"

section \<open>Notions of the specification and sample runs\<close>


text \<open>
  The block of one file as the specification words it: the labelled line with the icon,
  then the first three lines of the text that are not blank, as bullets, then the empty
  line that closes the block in the source.
\<close>

definition spec_file_block :: "str \<Rightarrow> str \<Rightarrow> str \<Rightarrow> str" where
  "spec_file_block icon name t =
     lit ''**'' @ icon @ lit '' '' @ name @ lit ''**\<newline>''
     @ concat (map (\<lambda>l. lit ''- '' @ strip l @ lit ''\<newline>'')
                 (take 3 (filter (\<lambda>l. strip l \<noteq> []) (split_nl t))))
     @ lit ''\<newline>''"

text \<open>A decoded response body with one candidate, in the shape the endpoint documents.\<close>

definition one_candidate :: "str \<Rightarrow> json" where
  "one_candidate t =
     JObj [(lit ''candidates'',
            JArr [JObj [(lit ''content'',
                         JObj [(lit ''parts'', JArr [JObj [(lit ''text'', JStr t)]]),
                               (lit ''role'', JStr (lit ''model''))]),
                        (lit ''finishReason'', JStr (lit ''STOP''))]])]"

text \<open>
  A sample environment: the credential is set, \<open>git diff\<close> prints \<open>out\<close>, every path
  exists, \<open>files\<close> gives the outcome of reading a path and \<open>answer\<close> the response to the
  request with a given number.
\<close>

definition sample_world ::
    "str \<Rightarrow> (str \<Rightarrow> str + str) \<Rightarrow> (nat \<Rightarrow> http_outcome) \<Rightarrow> bool \<Rightarrow> world" where
  "sample_world out files answer dir =
     \<lparr> getenv_api_key = Some (lit ''k''),
       git_diff = GitCompleted 0 out [],
       path_exists = (\<lambda>p. True),
       open_read = files,
       http_post = (\<lambda>n url prompt. answer n),
       out_dir_exists = dir \<rparr>"

text \<open>
  Sample environments and a sample result. In the first the endpoint answers every request
  with status 500 and a four-letter body; in the second \<open>git diff\<close> names no code
  file; in the third one code file changed and the answer rates it critical; in the
  fourth a changed file is empty and another cannot be read. The sample result has a
  blank second line.
\<close>

definition failing_endpoint_world :: world where
  "failing_endpoint_world =
     sample_world (lit ''a.py\<newline>'') (\<lambda>p. Inr (lit ''x = 1''))
       (\<lambda>n. Response 500 [111, 111, 112, 115] (Inl [])) True"

definition no_changes_world :: "bool \<Rightarrow> world" where
  "no_changes_world dir =
     sample_world (lit ''README.md\<newline>'') (\<lambda>p. Inl []) (\<lambda>n. PostRaised []) dir"

definition one_change_world :: "bool \<Rightarrow> world" where
  "one_change_world dir =
     sample_world (lit ''a.py\<newline>'') (\<lambda>p. Inr (lit ''x = 1''))
       (\<lambda>n. Response 200 [] (Inr (one_candidate (lit ''Severity: CRITICAL'')))) dir"

definition skipping_world :: world where
  "skipping_world =
     sample_world (lit ''a.py\<newline>empty.py\<newline>locked.py\<newline>'')
       (\<lambda>p. if p = lit ''a.py'' then Inr (lit ''x = 1'')
            else if p = lit ''empty.py'' then Inr []
            else Inl (lit ''Permission denied''))
       (\<lambda>n. Response 200 [] (Inr (one_candidate (lit ''Looks fine.'')))) True"

definition headed_result :: ReviewResult where
  "headed_result =
     \<lparr> file_name = lit ''a.py'',
       analysis = JStr (lit ''Summary\<newline>\<newline>Good code\<newline>No issues''),
       severity = lit ''MEDIUM'' \<rparr>"

section \<open>Strings and change discovery\<close>




lemma split_nl_nonempty: "split_nl s \<noteq> []"
  by (induction s) (auto split: list.splits)


lemma split_nl_single: "10 \<notin> set l \<Longrightarrow> split_nl l = [l]"
  by (induction l) (auto split: list.splits)





section \<open>The review call\<close>

lemma take_eq_prefix: "(take (length n) h = n) \<longleftrightarrow> prefix n h"
  by (metis append_eq_conv_conj prefix_def take_is_prefix)

lemma py_in_sublist: "py_in needle hay \<longleftrightarrow> sublist needle hay"
proof (induction hay)
  case Nil
  show ?case by auto
next
  case (Cons c cs)
  have "py_in needle (c # cs) \<longleftrightarrow> prefix needle (c # cs) \<or> py_in needle cs"
    using take_eq_prefix [of needle "c # cs"] by simp
  then show ?case using Cons by (simp add: sublist_Cons_right)
qed

lemma and_then_Inr [simp]: "and_then (Inr v) f = f v"
  by (simp add: and_then_def)

lemma and_then_Inl [simp]: "and_then (Inl e) f = Inl e"
  by (simp add: and_then_def)

lemma call_gemini_api_event:
  "snd (call_gemini_api I post prompt api_key) =
     [HttpPost (GEMINI_API_URL @ lit ''?key='' @ api_key) prompt]"
  by (simp add: call_gemini_api_def Let_def)

lemma analyze_file_event:
  "snd (analyze_file_with_gemini I post file_path content api_key) =
     [HttpPost (GEMINI_API_URL @ lit ''?key='' @ api_key) (review_prompt file_path content)]"
  using call_gemini_api_event [of I post "review_prompt file_path content" api_key]
  by (simp add: analyze_file_with_gemini_def split_beta)

lemma analyze_file_result:
  "fst (analyze_file_with_gemini I post file_path content api_key) =
     \<lparr> file_name = file_path,
       analysis = fst (call_gemini_api I post (review_prompt file_path content) api_key),
       severity = lit ''MEDIUM'' \<rparr>"
  by (simp add: analyze_file_with_gemini_def split_beta)

lemma py_contains_obj:
  "py_contains k (JObj kvs) = Inr (map_of kvs k \<noteq> None)"
  by (simp add: map_of_eq_None_iff)

lemma candidate_text_first:
  assumes "map_of kvs (lit ''candidates'') = Some (JArr (JObj ckv # cs))"
    and "map_of ckv (lit ''content'') = Some (JObj pkv)"
    and "map_of pkv (lit ''parts'') = Some (JArr (JObj tkv # ps))"
    and "map_of tkv (lit ''text'') = Some x"
  shows "candidate_text (JObj kvs) = Inr x"
  using assms by (simp add: candidate_text_def py_contains_obj del: py_contains.simps)

lemma candidate_text_none:
  assumes "map_of kvs (lit ''candidates'') = Some (JArr []) \<or> map_of kvs (lit ''candidates'') = None"
  shows "candidate_text (JObj kvs) = Inr (JStr no_response_text)"
  using assms by (auto simp add: candidate_text_def py_contains_obj simp del: py_contains.simps)

lemma call_gemini_api_200:
  assumes "post (GEMINI_API_URL @ lit ''?key='' @ api_key) prompt = Response 200 body (Inr result)"
    and "candidate_text result = Inr v"
  shows "fst (call_gemini_api I post prompt api_key) = v"
  using assms by (simp add: call_gemini_api_def Let_def)


lemma candidate_without_content:
  assumes "post (GEMINI_API_URL @ lit ''?key='' @ api_key) prompt =
             Response 200 body (Inr (JObj kvs))"
    and "map_of kvs (lit ''candidates'') = Some (JArr (JObj ckv # cs))"
    and "map_of ckv (lit ''content'') = None"
  shows "fst (call_gemini_api I post prompt api_key) =
           call_failed (str_exc I (KeyError (lit ''content'')))"
  using assms
  by (simp add: call_gemini_api_def Let_def candidate_text_def py_contains_obj
           del: py_contains.simps)

section \<open>The summary\<close>

lemma mentions_text: "mentions I keyword (JStr t) = Inr (sublist keyword (upper I t))"
  by (simp add: mentions_def py_in_sublist)

lemma is_high_priority_text:
  "is_high_priority I (JStr t) =
     Inr (sublist (lit ''HIGH'') (upper I t) \<or> sublist (lit ''CRITICAL'') (upper I t))"
  by (simp add: is_high_priority_def mentions_text)

lemma severity_icon_text:
  "severity_icon I (JStr t) =
     Inr (if sublist (lit ''HIGH'') (upper I t) \<or> sublist (lit ''CRITICAL'') (upper I t)
          then red_icon
          else if sublist (lit ''MEDIUM'') (upper I t) then yellow_icon else green_icon)"
  by (simp add: severity_icon_def is_high_priority_text mentions_text)


lemma bullet_loop_concat:
  "bullet_loop ls summary =
     summary @ concat (map (\<lambda>l. lit ''- '' @ strip l @ lit ''\<newline>'')
                         (filter (\<lambda>l. strip l \<noteq> []) ls))"
  by (induction ls arbitrary: summary) simp_all

lemma summary_step_text:
  assumes "analysis a = JStr t"
  shows "summary_step I a summary =
     Inr (summary @ lit ''**''
          @ (if sublist (lit ''HIGH'') (upper I t) \<or> sublist (lit ''CRITICAL'') (upper I t)
             then red_icon
             else if sublist (lit ''MEDIUM'') (upper I t) then yellow_icon else green_icon)
          @ lit '' '' @ file_name a @ lit ''**\<newline>''
          @ concat (map (\<lambda>l. lit ''- '' @ strip l @ lit ''\<newline>'')
                      (filter (\<lambda>l. strip l \<noteq> []) (take 3 (split_nl t))))
          @ lit ''\<newline>'')"
  by (simp add: summary_step_def assms severity_icon_text py_split_nl_def bullet_loop_concat)




lemma sum_high_severity:
  "sum_high I (map (\<lambda>a. a\<lparr>severity := s\<rparr>) analyses) acc = sum_high I analyses acc"
  by (induction analyses arbitrary: acc) (simp_all add: and_then_def split: sum.splits)

lemma summary_loop_severity:
  "summary_loop I (map (\<lambda>a. a\<lparr>severity := s\<rparr>) analyses) summary =
     summary_loop I analyses summary"
  by (induction analyses arbitrary: summary)
     (simp_all add: summary_step_def and_then_def split: sum.splits)

lemma generate_overall_summary_severity:
  "generate_overall_summary I (map (\<lambda>a. a\<lparr>severity := s\<rparr>) analyses) =
     generate_overall_summary I analyses"
  by (simp add: generate_overall_summary_def sum_high_severity summary_loop_severity)

section \<open>The loop over the changed files\<close>



lemma review_files_fst_Cons:
  "fst (review_files I W k n (f # fs)) =
     (case fst (review_file I W k n f) of
        None \<Rightarrow> fst (review_files I W k n fs)
      | Some a \<Rightarrow> a # fst (review_files I W k (Suc n) fs))"
  by (simp split: prod.splits option.splits)

lemma review_files_snd_Cons:
  "snd (review_files I W k n (f # fs)) =
     snd (review_file I W k n f)
     @ (case fst (review_file I W k n f) of
          None \<Rightarrow> snd (review_files I W k n fs)
        | Some a \<Rightarrow> snd (review_files I W k (Suc n) fs))"
  by (simp split: prod.splits option.splits)

lemmas review_files_Cons = review_files_fst_Cons review_files_snd_Cons



lemma review_file_name:
  assumes "fst (review_file I W k n f) = Some a"
  shows "file_name a = f \<and> severity a = lit ''MEDIUM''"
  using assms analyze_file_result
  by (auto simp: review_file_def Let_def split_beta split: if_splits)

lemma review_files_names:
  "a \<in> set (fst (review_files I W k n fs)) \<Longrightarrow> file_name a \<in> set fs \<and> severity a = lit ''MEDIUM''"
proof (induction fs arbitrary: n)
  case Nil
  then show ?case by simp
next
  case (Cons g gs)
  show ?case
  proof (cases "fst (review_file I W k n g)")
    case None
    then show ?thesis
      using Cons by (simp add: review_files_Cons del: review_files.simps(2))
  next
    case (Some b)
    note nm = review_file_name [OF Some]
    from Some Cons.prems have "a = b \<or> a \<in> set (fst (review_files I W k (Suc n) gs))"
      by (simp add: review_files_Cons del: review_files.simps(2))
    then show ?thesis using nm Cons.IH by auto
  qed
qed


section \<open>The report and the run\<close>




lemma main_nothing_changed:
  assumes "getenv_api_key W = Some k" and "k \<noteq> []"
    and "fst (get_changed_files (git_diff W)) = []"
  shows "written (main I W) = (if out_dir_exists W then Some no_changes_document else None)"
    and "status (main I W) =
           (if out_dir_exists W then Returned else Uncaught (FileNotFoundError out_path))"
    and "\<not> made_dir (main I W)"
    and "\<forall>e\<in>set (trace (main I W)).
           (\<exists>s. e = Print s) \<or> e = GitDiff \<or> e = OpenFailed out_path
           \<or> e = WriteFile out_path no_changes_document"
  using assms
  by (auto simp: main_def Let_def split_beta get_changed_files_def
           split: sum.splits git_outcome.splits if_splits)

section \<open>The claims\<close>

lemmas run_simps =
  lit_def strip_def isspace_def upper_def ascii_interp_def sample_world_def
  red_icon_def yellow_icon_def green_icon_def

lemmas main_simps =
  main_def get_changed_files_def diff_files_def code_extensions_def endswith_any_def
  endswith_def review_file_def read_file_content_def analyze_file_with_gemini_def
  call_gemini_api_def call_failed_def review_document_def generate_overall_summary_def
  is_high_priority_def mentions_def severity_icon_def summary_step_def py_split_nl_def
  str_int_def







lemma failing_endpoint_report:
  "written (main ascii_interp failing_endpoint_world) =
     Some (lit ''## '' @ [0x1F916] @ lit '' AI Code Review Results (Gemini)\<newline>\<newline>''
           @ lit ''**Analyzed 1 files**\<newline>\<newline>'' @ summary_header 1 0
           @ lit ''**'' @ green_icon @ lit '' a.py**\<newline>- API Error: 500 - ''
           @ [111, 111, 112, 115] @ lit ''\<newline>\<newline>---\<newline>\<newline>''
           @ section_heading (lit ''a.py'') @ lit ''API Error: 500 - '' @ [111, 111, 112, 115]
           @ section_end @ report_footer)"
  by (simp add: failing_endpoint_world_def run_simps main_simps Let_def str_nat.simps
        summary_header_def section_heading_def section_end_def report_footer_def)


text \<open>
  Claim C3. For a file whose content is longer than 4000 characters, the one request made
  for it carries the prompt that is the fixed head, the file path, the fixed middle, the
  first 4000 characters of the content and the fixed tail, which starts with the
  truncation marker; nothing of the content beyond the 4000th character is in it.
\<close>

theorem prompt_holds_first_4000_characters:
  assumes "4000 < length content"
  shows "snd (analyze_file_with_gemini I post file_path content api_key) =
           [HttpPost (GEMINI_API_URL @ lit ''?key='' @ api_key)
              (prompt_head @ file_path @ prompt_mid @ take 4000 content @ prompt_tail)]
         \<and> length (take 4000 content) = 4000
         \<and> prefix (take 4000 content) content
         \<and> prefix (lit ''... (truncated if longer)'') prompt_tail"
proof -
  have "prefix (lit ''... (truncated if longer)'') prompt_tail"
    by (simp add: prompt_tail_def lit_def)
  then show ?thesis
    using assms by (simp add: analyze_file_event review_prompt_def take_is_prefix)
qed

theorem prompt_holds_first_4000_characters_witness:
  "4000 < length (replicate 4000 (97::nat) @ lit ''tail'')
   \<and> snd (analyze_file_with_gemini ascii_interp (\<lambda>u p. PostRaised []) (lit ''a.py'')
            (replicate 4000 97 @ lit ''tail'') (lit ''k'')) =
       [HttpPost (GEMINI_API_URL @ lit ''?key=k'')
          (prompt_head @ lit ''a.py'' @ prompt_mid @ replicate 4000 97 @ prompt_tail)]"
proof -
  have h: "4000 < length (replicate 4000 (97::nat) @ lit ''tail'')"
    by (simp add: lit_def)
  show ?thesis
    using h prompt_holds_first_4000_characters
              [OF h, of ascii_interp "\<lambda>u p. PostRaised []" "lit ''a.py''" "lit ''k''"]
    by (simp add: lit_def)
qed



text \<open>
  Claim C5, at an input where the code departs from it. No code file changed and the
  directory \<open>.github/scripts\<close> is absent: the run opens the output file without
  creating the directory, the \<open>open\<close> raises, and nothing is written. The run makes no
  request and reads no file, as \<open>main_nothing_changed\<close> shows for every environment.
\<close>

theorem no_changes_run_fails_without_directory:
  "main ascii_interp (no_changes_world False) =
     \<lparr> status = Uncaught (FileNotFoundError out_path),
       trace = [Print ([0x1F916] @ lit '' Starting AI Code Review with Gemini...''),
                GitDiff,
                Print ([0x2139, 0xFE0F] @ lit '' No code files changed in this PR''),
                OpenFailed out_path],
       made_dir = False,
       written = None \<rparr>"
  by (simp add: no_changes_world_def run_simps main_simps Let_def)

text \<open>
  Claim C6 as stated fails. The text below has a blank second line: the source takes the
  first three lines and drops the blank one, so two bullets appear, where the first three
  lines that are not blank would give three.
\<close>

theorem bullets_are_not_first_three_nonblank_lines:
  "summary_step ascii_interp headed_result [] =
     Inr (lit ''**'' @ green_icon @ lit '' a.py**\<newline>- Summary\<newline>- Good code\<newline>\<newline>'')
   \<and> spec_file_block green_icon (lit ''a.py'') (lit ''Summary\<newline>\<newline>Good code\<newline>No issues'') =
       lit ''**'' @ green_icon @ lit '' a.py**\<newline>- Summary\<newline>- Good code\<newline>- No issues\<newline>\<newline>''
   \<and> summary_step ascii_interp headed_result [] \<noteq>
       Inr (spec_file_block green_icon (lit ''a.py'')
              (lit ''Summary\<newline>\<newline>Good code\<newline>No issues''))"
  by (simp add: headed_result_def spec_file_block_def summary_step_def severity_icon_def
        is_high_priority_def mentions_def py_split_nl_def run_simps)

text \<open>
  Claim C6, amended. For every result whose analysis is text, one pass of the summary loop
  appends the labelled line with the icon, then one bullet for each line that is not blank
  among the first three lines of the text (stripped; so at most three bullets, and fewer
  when one of the first three lines is blank), then an empty line.
\<close>

theorem bullets_are_nonblank_among_first_three_lines:
  assumes "analysis a = JStr t"
  shows "\<exists>icon. severity_icon I (analysis a) = Inr icon
           \<and> summary_step I a summary =
               Inr (summary @ lit ''**'' @ icon @ lit '' '' @ file_name a @ lit ''**\<newline>''
                    @ concat (map (\<lambda>l. lit ''- '' @ strip l @ lit ''\<newline>'')
                                (filter (\<lambda>l. strip l \<noteq> []) (take 3 (split_nl t))))
                    @ lit ''\<newline>'')
           \<and> length (filter (\<lambda>l. strip l \<noteq> []) (take 3 (split_nl t))) \<le> 3"
proof -
  have "length (filter (\<lambda>l. strip l \<noteq> []) (take 3 (split_nl t))) \<le> length (take 3 (split_nl t))"
    by (rule length_filter_le)
  then have "length (filter (\<lambda>l. strip l \<noteq> []) (take 3 (split_nl t))) \<le> 3" by simp
  then show ?thesis
    by (simp add: assms severity_icon_text summary_step_text)
qed

theorem bullets_are_nonblank_among_first_three_lines_witness:
  "analysis headed_result = JStr (lit ''Summary\<newline>\<newline>Good code\<newline>No issues'')
   \<and> summary_step ascii_interp headed_result (lit ''so far'') =
       Inr (lit ''so far**'' @ green_icon @ lit '' a.py**\<newline>- Summary\<newline>- Good code\<newline>\<newline>'')"
proof -
  have h: "analysis headed_result = JStr (lit ''Summary\<newline>\<newline>Good code\<newline>No issues'')"
    by (simp add: headed_result_def)
  have icon: "severity_icon ascii_interp (analysis headed_result) = Inr green_icon"
    by (simp add: headed_result_def severity_icon_def is_high_priority_def mentions_def
          run_simps)
  from bullets_are_nonblank_among_first_three_lines [OF h, of ascii_interp "lit ''so far''"] icon
  have "summary_step ascii_interp headed_result (lit ''so far'') =
          Inr (lit ''so far'' @ lit ''**'' @ green_icon @ lit '' '' @ file_name headed_result
               @ lit ''**\<newline>''
               @ concat (map (\<lambda>l. lit ''- '' @ strip l @ lit ''\<newline>'')
                           (filter (\<lambda>l. strip l \<noteq> [])
                              (take 3 (split_nl (lit ''Summary\<newline>\<newline>Good code\<newline>No issues'')))))
               @ lit ''\<newline>'')"
    by auto
  then show ?thesis using h by (simp add: headed_result_def run_simps)
qed

text \<open>
  Claim C7, at an input where the code departs from it. With the directory absent, the
  run without changed code files does not create it and ends on the uncaught exception
  of \<open>open\<close>, while the run with a changed code file creates it and returns.
\<close>

theorem no_changes_run_creates_no_directory:
  "fst (get_changed_files (git_diff (no_changes_world False))) = []
   \<and> \<not> made_dir (main ascii_interp (no_changes_world False))
   \<and> MakeDirs out_dir \<notin> set (trace (main ascii_interp (no_changes_world False)))
   \<and> status (main ascii_interp (no_changes_world False)) = Uncaught (FileNotFoundError out_path)
   \<and> made_dir (main ascii_interp (one_change_world False))
   \<and> MakeDirs out_dir \<in> set (trace (main ascii_interp (one_change_world False)))
   \<and> status (main ascii_interp (one_change_world False)) = Returned"
  by (simp add: no_changes_world_def one_change_world_def one_candidate_def run_simps main_simps
        candidate_text_def Let_def str_nat.simps)

text \<open>
  Claim C8. Every result the review of a file produces has the severity \<open>MEDIUM\<close>,
  whatever the answer was; so has every result the loop over the changed files collects;
  and the summary, with its icons, does not depend on the severity field at all. In the
  sample run the answer says \<open>CRITICAL\<close>: the icon is red and the field is
  \<open>MEDIUM\<close>.
\<close>

theorem severity_is_always_medium:
  "severity (fst (analyze_file_with_gemini I post file_path content api_key)) = lit ''MEDIUM''
   \<and> (\<forall>a\<in>set (fst (review_files I W api_key n files)). severity a = lit ''MEDIUM'')
   \<and> generate_overall_summary I (map (\<lambda>a. a\<lparr>severity := s\<rparr>) analyses) =
       generate_overall_summary I analyses"
  using review_files_names [of _ I W api_key n files]
  by (simp add: analyze_file_result generate_overall_summary_severity)

lemma one_change_results:
  "fst (review_files ascii_interp (one_change_world True) (lit ''k'') 0 [lit ''a.py'']) =
     [\<lparr> file_name = lit ''a.py'', analysis = JStr (lit ''Severity: CRITICAL''),
        severity = lit ''MEDIUM'' \<rparr>]"
  by (simp add: one_change_world_def one_candidate_def run_simps main_simps candidate_text_def
        Let_def)

theorem severity_is_always_medium_witness:
  "fst (review_files ascii_interp (one_change_world True) (lit ''k'') 0 [lit ''a.py'']) =
     [\<lparr> file_name = lit ''a.py'', analysis = JStr (lit ''Severity: CRITICAL''),
        severity = lit ''MEDIUM'' \<rparr>]
   \<and> map severity (fst (review_files ascii_interp (one_change_world True) (lit ''k'') 0
                           [lit ''a.py''])) = [lit ''MEDIUM'']
   \<and> severity_icon ascii_interp (JStr (lit ''Severity: CRITICAL'')) = Inr red_icon"
proof -
  have icon: "severity_icon ascii_interp (JStr (lit ''Severity: CRITICAL'')) = Inr red_icon"
    by (simp add: severity_icon_def is_high_priority_def mentions_def run_simps)
  from severity_is_always_medium
         [where I = ascii_interp and W = "one_change_world True" and api_key = "lit ''k''"
            and n = 0 and files = "[lit ''a.py'']"]
  have "\<forall>a\<in>set (fst (review_files ascii_interp (one_change_world True) (lit ''k'') 0
                       [lit ''a.py''])). severity a = lit ''MEDIUM''"
    by blast
  then have "map severity (fst (review_files ascii_interp (one_change_world True) (lit ''k'') 0
                                  [lit ''a.py''])) = [lit ''MEDIUM'']"
    unfolding one_change_results by simp
  with one_change_results icon show ?thesis by blast
qed

text \<open>
  Claim C9. When the response has status 200 and decodes to an object, the review call
  returns the text of the first candidate (found under \<open>content\<close>, \<open>parts\<close>, first
  part, \<open>text\<close>) if the list of candidates is not empty, and the fixed placeholder if
  the list is empty or absent.
\<close>

theorem first_candidate_text_is_returned:
  assumes "post (GEMINI_API_URL @ lit ''?key='' @ api_key) prompt =
             Response 200 body (Inr (JObj kvs))"
  shows "(map_of kvs (lit ''candidates'') = Some (JArr (JObj ckv # cs))
            \<and> map_of ckv (lit ''content'') = Some (JObj pkv)
            \<and> map_of pkv (lit ''parts'') = Some (JArr (JObj tkv # ps))
            \<and> map_of tkv (lit ''text'') = Some x
          \<longrightarrow> fst (call_gemini_api I post prompt api_key) = x)
       \<and> (map_of kvs (lit ''candidates'') = Some (JArr [])
            \<or> map_of kvs (lit ''candidates'') = None
          \<longrightarrow> fst (call_gemini_api I post prompt api_key) = JStr no_response_text)"
proof (intro conjI impI)
  assume "map_of kvs (lit ''candidates'') = Some (JArr (JObj ckv # cs))
            \<and> map_of ckv (lit ''content'') = Some (JObj pkv)
            \<and> map_of pkv (lit ''parts'') = Some (JArr (JObj tkv # ps))
            \<and> map_of tkv (lit ''text'') = Some x"
  then have "candidate_text (JObj kvs) = Inr x"
    by (simp add: candidate_text_first)
  with assms show "fst (call_gemini_api I post prompt api_key) = x"
    by (rule call_gemini_api_200)
next
  assume "map_of kvs (lit ''candidates'') = Some (JArr [])
            \<or> map_of kvs (lit ''candidates'') = None"
  then have "candidate_text (JObj kvs) = Inr (JStr no_response_text)"
    by (rule candidate_text_none)
  with assms show "fst (call_gemini_api I post prompt api_key) = JStr no_response_text"
    by (rule call_gemini_api_200)
qed

theorem first_candidate_text_is_returned_witness:
  "fst (call_gemini_api ascii_interp (\<lambda>u p. Response 200 [] (Inr (one_candidate (lit ''X''))))
          (lit ''review this'') (lit ''k'')) = JStr (lit ''X'')
   \<and> fst (call_gemini_api ascii_interp
            (\<lambda>u p. Response 200 [] (Inr (JObj [(lit ''candidates'', JArr [])])))
            (lit ''review this'') (lit ''k'')) = JStr no_response_text"
  using first_candidate_text_is_returned
          [of "\<lambda>u p. Response 200 [] (Inr (one_candidate (lit ''X'')))" "lit ''k''"
              "lit ''review this''" "[]"
              "[(lit ''candidates'',
                 JArr [JObj [(lit ''content'',
                         JObj [(lit ''parts'', JArr [JObj [(lit ''text'', JStr (lit ''X''))]]),
                               (lit ''role'', JStr (lit ''model''))]),
                        (lit ''finishReason'', JStr (lit ''STOP''))]])]"
              "[(lit ''content'',
                         JObj [(lit ''parts'', JArr [JObj [(lit ''text'', JStr (lit ''X''))]]),
                               (lit ''role'', JStr (lit ''model''))]),
                        (lit ''finishReason'', JStr (lit ''STOP''))]"
              "[]"
              "[(lit ''parts'', JArr [JObj [(lit ''text'', JStr (lit ''X''))]]),
                               (lit ''role'', JStr (lit ''model''))]"
              "[(lit ''text'', JStr (lit ''X''))]" "[]" "JStr (lit ''X'')" ascii_interp]
        first_candidate_text_is_returned
          [of "\<lambda>u p. Response 200 [] (Inr (JObj [(lit ''candidates'', JArr [])]))" "lit ''k''"
              "lit ''review this''" "[]" "[(lit ''candidates'', JArr [])]" _ _ _ _ _ _
              ascii_interp]
  by (simp add: one_candidate_def lit_def)


lemma skipping_changed:
  "fst (get_changed_files (git_diff skipping_world)) =
     [lit ''a.py'', lit ''empty.py'', lit ''locked.py'']"
  by (simp add: skipping_world_def run_simps get_changed_files_def diff_files_def
        code_extensions_def endswith_any_def endswith_def)





end
